theory Spec2Isabelle
  imports Complex_Main
begin

section \<open>Data model\<close>

text \<open>
  Times in seconds are Python floats in \<^verbatim>\<open>splitter.py\<close>; they are modelled as exact
  rationals, so every statement below is about the arithmetic the code writes down, not
  about floating-point rounding. The duration window is a pair of Python ints, and the
  non-silent spans reported by the audio detector are pairs of ints (milliseconds).
\<close>

type_synonym boundary = "rat \<times> rat"

type_synonym chunk = "int \<times> int"

text \<open>A subtitle is the dict \<^verbatim>\<open>{'start': ..., 'end': ..., 'text': ...}\<close>.\<close>

record subtitle =
  sub_start :: rat
  sub_end :: rat
  sub_text :: string

datatype py_error =
  AttributeError | FileNotFoundError | ValueError | ZeroDivisionError | UnboundLocalError

section \<open>Boundary calculator\<close>

subsection \<open>Strategy 3: \<^verbatim>\<open>_calculate_equal_boundaries\<close>\<close>

text \<open>
  One pass of the body of \<^verbatim>\<open>while start < total_duration\<close>, on the pair of the
  variables \<open>start\<close> and \<open>boundaries\<close>. The merge branch pops the last boundary and
  appends it again with the new end.
\<close>

definition equal_step :: "rat \<Rightarrow> int \<Rightarrow> int \<Rightarrow> rat \<times> boundary list \<Rightarrow> rat \<times> boundary list" where
  "equal_step total_duration min_duration max_duration st =
     (case st of (start, boundaries) \<Rightarrow>
        let end = min (start + of_int max_duration) total_duration in
        if end - start < of_int min_duration \<and> length boundaries > 0
        then (case last boundaries of (prev_start, prev_end) \<Rightarrow>
                (end, butlast boundaries @ [(prev_start, end)]))
        else (end, boundaries @ [(start, end)]))"

text \<open>
  The loop itself. Nothing in the source bounds the number of passes (with
  \<open>max_duration \<le> 0\<close> the variable \<open>start\<close> never advances), so the loop is a
  partial function: \<open>None\<close> is a run that never returns.
\<close>

partial_function (option) equal_loop ::
  "rat \<Rightarrow> int \<Rightarrow> int \<Rightarrow> rat \<times> boundary list \<Rightarrow> boundary list option" where
  "equal_loop total_duration min_duration max_duration st =
     (if fst st < total_duration
      then equal_loop total_duration min_duration max_duration
             (equal_step total_duration min_duration max_duration st)
      else Some (snd st))"

definition calculate_equal_boundaries :: "rat \<Rightarrow> int \<Rightarrow> int \<Rightarrow> boundary list option" where
  "calculate_equal_boundaries total_duration min_duration max_duration =
     equal_loop total_duration min_duration max_duration (0, [])"

subsection \<open>Strategy 2: \<^verbatim>\<open>_detect_silence_boundaries\<close>\<close>

text \<open>
  \<^verbatim>\<open>chunk_duration = (chunk_end - chunk_start) / 1000\<close>, the length in seconds of one
  non-silent span.
\<close>

definition chunk_duration :: "chunk \<Rightarrow> rat" where
  "chunk_duration ch = of_int (snd ch - fst ch) / 1000"

text \<open>
  The inner loop \<^verbatim>\<open>for i in range(num_splits)\<close>, over the list of indices. It appends
  to \<open>boundaries\<close> and assigns the local variable \<open>end\<close>, which is unbound (\<open>None\<close>)
  until the first pass of such a loop.
\<close>

fun split_long_chunk ::
  "rat \<Rightarrow> rat \<Rightarrow> nat list \<Rightarrow> boundary list \<times> rat option \<Rightarrow> boundary list \<times> rat option" where
  "split_long_chunk current_start split_duration [] st = st"
| "split_long_chunk current_start split_duration (i # is) st =
     (let start = current_start + of_nat i * split_duration;
          end = start + split_duration
      in split_long_chunk current_start split_duration is (fst st @ [(start, end)], Some end))"

text \<open>
  The state of the outer loop: \<open>boundaries\<close>, \<open>current_start\<close> and the variable
  \<open>end\<close>. One pass handles one non-silent span. The divisions raise
  \<^verbatim>\<open>ZeroDivisionError\<close> on a zero divisor, \<^verbatim>\<open>range\<close> of a non-positive number is
  empty, and \<^verbatim>\<open>current_start = end\<close> raises \<^verbatim>\<open>UnboundLocalError\<close> when \<open>end\<close> was never
  assigned.
\<close>

type_synonym silence_state = "boundary list \<times> rat \<times> rat option"

definition silence_step :: "int \<Rightarrow> int \<Rightarrow> silence_state \<Rightarrow> chunk \<Rightarrow> py_error + silence_state" where
  "silence_step min_duration max_duration st ch =
     (case st of (boundaries, current_start, end_var) \<Rightarrow>
      case ch of (chunk_start, chunk_end) \<Rightarrow>
        let chunk_duration = chunk_duration (chunk_start, chunk_end) in
        if chunk_duration \<ge> of_int min_duration then
          if chunk_duration \<le> of_int max_duration
          then Inr (boundaries @ [(current_start, of_int chunk_end / 1000)],
                    of_int chunk_end / 1000, end_var)
          else if max_duration = 0 then Inl ZeroDivisionError
          else
            let num_splits = \<lceil>chunk_duration / of_int max_duration\<rceil> in
            if num_splits = 0 then Inl ZeroDivisionError
            else
              let split_duration = chunk_duration / of_int num_splits in
              (case split_long_chunk current_start split_duration [0..<nat num_splits]
                      (boundaries, end_var) of
                 (boundaries', None) \<Rightarrow> Inl UnboundLocalError
               | (boundaries', Some end) \<Rightarrow> Inr (boundaries', end, Some end))
        else Inr st)"

fun silence_loop :: "int \<Rightarrow> int \<Rightarrow> silence_state \<Rightarrow> chunk list \<Rightarrow> py_error + silence_state" where
  "silence_loop min_duration max_duration st [] = Inr st"
| "silence_loop min_duration max_duration st (ch # chunks) =
     (case silence_step min_duration max_duration st ch of
        Inl e \<Rightarrow> Inl e
      | Inr st' \<Rightarrow> silence_loop min_duration max_duration st' chunks)"

text \<open>
  The whole function runs under \<^verbatim>\<open>try: ... except Exception: return []\<close>. The argument
  is what the audio library hands back: \<open>None\<close> when reading the audio or detecting the
  non-silent spans raised, otherwise the list of spans.
\<close>

definition detect_silence_boundaries :: "chunk list option \<Rightarrow> int \<Rightarrow> int \<Rightarrow> boundary list" where
  "detect_silence_boundaries non_silent_chunks min_duration max_duration =
     (case non_silent_chunks of
        None \<Rightarrow> []
      | Some chunks \<Rightarrow>
          (case silence_loop min_duration max_duration ([], 0, None) chunks of
             Inl e \<Rightarrow> []
           | Inr st \<Rightarrow> fst st))"

subsection \<open>The priority chain: \<^verbatim>\<open>_calculate_clip_boundaries\<close>\<close>

text \<open>
  \<^verbatim>\<open>_calculate_clip_boundaries\<close> calls \<^verbatim>\<open>self._merge_scenes_to_duration\<close>, and no file of
  the repository defines a method of that name. The model therefore takes the method as
  a parameter; \<open>merge_scenes_undefined\<close> is the class as the source has it, where looking
  the attribute up raises \<^verbatim>\<open>AttributeError\<close>.
\<close>

type_synonym merge_scenes = "rat list \<Rightarrow> int \<Rightarrow> int \<Rightarrow> rat \<Rightarrow> py_error + boundary list"

definition merge_scenes_undefined :: merge_scenes where
  "merge_scenes_undefined scene_boundaries min_duration max_duration total_duration =
     Inl AttributeError"

text \<open>
  The two detectors read the video file; their results stand in for \<open>video_path\<close>:
  \<open>scene_boundaries\<close> is the list returned by \<^verbatim>\<open>_detect_scene_changes\<close> (empty when it
  failed) and \<open>non_silent_chunks\<close> is the input of the silence strategy above. The
  result is \<open>None\<close> when the call never returns, \<open>Some (Inl e)\<close> when it raises \<open>e\<close>.
\<close>

definition calculate_clip_boundaries ::
  "merge_scenes \<Rightarrow> rat list \<Rightarrow> chunk list option \<Rightarrow> int \<Rightarrow> int \<Rightarrow> rat
     \<Rightarrow> (py_error + boundary list) option" where
  "calculate_clip_boundaries merge_scenes_to_duration scene_boundaries non_silent_chunks
       min_duration max_duration total_duration =
     (if scene_boundaries \<noteq> []
      then Some (merge_scenes_to_duration scene_boundaries min_duration max_duration
                   total_duration)
      else
        let silence_boundaries =
              detect_silence_boundaries non_silent_chunks min_duration max_duration in
        if silence_boundaries \<noteq> [] then Some (Inr silence_boundaries)
        else map_option Inr
               (calculate_equal_boundaries total_duration min_duration max_duration))"

text \<open>
  \<^verbatim>\<open>split_video\<close> up to the point where \<open>clip_boundaries\<close> is known: its only check is
  that the video file exists, then it passes \<open>clip_duration[0]\<close>, \<open>clip_duration[1]\<close> and
  the video's duration on.
\<close>

definition split_video_clip_boundaries ::
  "bool \<Rightarrow> merge_scenes \<Rightarrow> rat list \<Rightarrow> chunk list option \<Rightarrow> int \<times> int \<Rightarrow> rat
     \<Rightarrow> (py_error + boundary list) option" where
  "split_video_clip_boundaries video_exists merge_scenes_to_duration scene_boundaries
       non_silent_chunks clip_duration total_duration =
     (if \<not> video_exists then Some (Inl FileNotFoundError)
      else calculate_clip_boundaries merge_scenes_to_duration scene_boundaries
             non_silent_chunks (fst clip_duration) (snd clip_duration) total_duration)"

section \<open>Caption timing: the filter of \<^verbatim>\<open>_add_captions_to_clip\<close>\<close>

text \<open>
  The first loop of \<^verbatim>\<open>_add_captions_to_clip\<close> walks the parsed subtitles in order and
  appends an adjusted copy of each one that overlaps the clip. \<open>start_time\<close> is the
  clip's start in the source video and \<open>clip_duration\<close> is \<^verbatim>\<open>clip.duration\<close>.
\<close>

fun filter_subtitles :: "rat \<Rightarrow> rat \<Rightarrow> subtitle list \<Rightarrow> subtitle list \<Rightarrow> subtitle list" where
  "filter_subtitles start_time clip_duration clip_subtitles [] = clip_subtitles"
| "filter_subtitles start_time clip_duration clip_subtitles (sub # subtitles) =
     (if sub_end sub > start_time \<and> sub_start sub < start_time + clip_duration
      then filter_subtitles start_time clip_duration
             (clip_subtitles @
                [\<lparr>sub_start = max 0 (sub_start sub - start_time),
                  sub_end = min clip_duration (sub_end sub - start_time),
                  sub_text = sub_text sub\<rparr>])
             subtitles
      else filter_subtitles start_time clip_duration clip_subtitles subtitles)"

definition clip_subtitles_of :: "subtitle list \<Rightarrow> rat \<Rightarrow> rat \<Rightarrow> subtitle list" where
  "clip_subtitles_of subtitles start_time clip_duration =
     filter_subtitles start_time clip_duration [] subtitles"

section \<open>Subtitle parser\<close>

subsection \<open>The string operations the parser uses\<close>

text \<open>
  Strings are lists of characters. \<^verbatim>\<open>str.strip()\<close> removes leading and trailing
  whitespace; the ASCII whitespace characters are the tab, the line feed, the vertical
  tab, the form feed, the carriage return, the four separators 0x1C to 0x1F and the
  space. Whitespace and digits outside ASCII are not modelled: such characters count as
  ordinary ones.
\<close>

definition is_space :: "char \<Rightarrow> bool" where
  "is_space c = (c \<in> set [CHR 0x09, CHR 0x0A, CHR 0x0B, CHR 0x0C, CHR 0x0D,
                           CHR 0x1C, CHR 0x1D, CHR 0x1E, CHR 0x1F, CHR 0x20])"

definition strip :: "string \<Rightarrow> string" where
  "strip s = rev (dropWhile is_space (rev (dropWhile is_space s)))"

text \<open>
  \<^verbatim>\<open>s.split(sep)\<close> for a non-empty separator: the occurrences are found from the left
  and do not overlap. \<open>acc\<close> is the current field, reversed.
\<close>

fun split_from :: "string \<Rightarrow> string \<Rightarrow> string \<Rightarrow> string list" where
  "split_from sep acc [] = [rev acc]"
| "split_from sep acc (c # cs) =
     (if sep \<noteq> [] \<and> take (length sep) (c # cs) = sep
      then rev acc # split_from sep [] (drop (length sep) (c # cs))
      else split_from sep (c # acc) cs)"

definition split_str :: "string \<Rightarrow> string \<Rightarrow> string list" where
  "split_str s sep = split_from sep [] s"

fun join_str :: "string \<Rightarrow> string list \<Rightarrow> string" where
  "join_str sep [] = []"
| "join_str sep [x] = x"
| "join_str sep (x # y # ys) = x @ sep @ join_str sep (y # ys)"

text \<open>
  \<^verbatim>\<open>int(s)\<close> on a string: surrounding whitespace is dropped, one sign is allowed, then
  come decimal digits, where single underscores may stand between two digits. Anything
  else raises \<^verbatim>\<open>ValueError\<close>, which is \<open>None\<close> here.
\<close>

definition is_digit :: "char \<Rightarrow> bool" where
  "is_digit c = (c \<in> set ''0123456789'')"

definition digit_val :: "char \<Rightarrow> nat" where
  "digit_val c = of_char c - 48"

fun parse_digits :: "nat \<Rightarrow> string \<Rightarrow> nat option" where
  "parse_digits acc [] = Some acc"
| "parse_digits acc [c] = (if is_digit c then Some (acc * 10 + digit_val c) else None)"
| "parse_digits acc (c # d # ds) =
     (if is_digit c then parse_digits (acc * 10 + digit_val c) (d # ds)
      else if c = CHR ''_'' \<and> is_digit d then parse_digits (acc * 10 + digit_val d) ds
      else None)"

definition py_int :: "string \<Rightarrow> int option" where
  "py_int s =
     (let t = strip s;
          sign = (if take 1 t = ''-'' then - 1 else 1);
          body = (if take 1 t = ''-'' \<or> take 1 t = ''+'' then drop 1 t else t)
      in case body of
           [] \<Rightarrow> None
         | d # ds \<Rightarrow>
             if is_digit d then map_option (\<lambda>n. sign * int n) (parse_digits (digit_val d) ds)
             else None)"

subsection \<open>\<^verbatim>\<open>_time_to_seconds\<close> and \<^verbatim>\<open>_parse_srt_file\<close>\<close>

text \<open>
  Both tuple assignments need the exact number of fields and the four conversions need
  integers; the bare \<^verbatim>\<open>except\<close> turns every failure into \<open>0.0\<close>.
\<close>

definition time_to_seconds :: "string \<Rightarrow> rat" where
  "time_to_seconds time_str =
     (case split_str time_str '':'' of
        [h, m, s] \<Rightarrow>
          (case split_str s '','' of
             [s', ms] \<Rightarrow>
               (case (py_int h, py_int m, py_int s', py_int ms) of
                  (Some hv, Some mv, Some sv, Some msv) \<Rightarrow>
                    of_int (hv * 3600 + mv * 60 + sv) + of_int msv / 1000
                | _ \<Rightarrow> 0)
           | _ \<Rightarrow> 0)
      | _ \<Rightarrow> 0)"

text \<open>
  The body of \<^verbatim>\<open>for block in blocks\<close> for one block: the entries it appends, or the
  \<^verbatim>\<open>ValueError\<close> of \<^verbatim>\<open>start_str, end_str = time_line.split(' --> ')\<close> when the time
  line does not split into exactly two parts.
\<close>

definition parse_block :: "string \<Rightarrow> py_error + subtitle list" where
  "parse_block block =
     (let lines = split_str (strip block) ''\<newline>'' in
      if length lines \<ge> 3 then
        (case split_str (lines ! 1) '' --> '' of
           [start_str, end_str] \<Rightarrow>
             Inr [\<lparr>sub_start = time_to_seconds start_str,
                   sub_end = time_to_seconds end_str,
                   sub_text = join_str '' '' (drop 2 lines)\<rparr>]
         | _ \<Rightarrow> Inl ValueError)
      else Inr [])"

text \<open>
  The loop runs inside the function's single \<^verbatim>\<open>try\<close>: an exception leaves the loop, is
  printed, and the function returns the list \<open>subtitles\<close> as it stands.
\<close>

fun parse_blocks :: "subtitle list \<Rightarrow> string list \<Rightarrow> subtitle list \<times> py_error option" where
  "parse_blocks subtitles [] = (subtitles, None)"
| "parse_blocks subtitles (block # blocks) =
     (case parse_block block of
        Inl e \<Rightarrow> (subtitles, Some e)
      | Inr new \<Rightarrow> parse_blocks (subtitles @ new) blocks)"

text \<open>
  The argument is the text read from the file, or \<open>None\<close> when opening or decoding it
  raised (the list is still empty then).
\<close>

definition parse_srt_file :: "string option \<Rightarrow> subtitle list" where
  "parse_srt_file file =
     (case file of
        None \<Rightarrow> []
      | Some content \<Rightarrow> fst (parse_blocks [] (split_str (strip content) ''\<newline>\<newline>'')))"

section \<open>Caption styles\<close>

text \<open>Each getter is a dict lookup with a default: \<^verbatim>\<open>table.get(style, default)\<close>.\<close>

definition dict_get :: "(string \<times> 'v) list \<Rightarrow> string \<Rightarrow> 'v \<Rightarrow> 'v" where
  "dict_get table k d = (case map_of table k of Some v \<Rightarrow> v | None \<Rightarrow> d)"

definition get_font_size :: "string \<Rightarrow> int" where
  "get_font_size style =
     dict_get [(''standard'', 28), (''minimal'', 24), (''bold'', 32), (''outline'', 30)] style 28"

definition get_text_color :: "string \<Rightarrow> string" where
  "get_text_color style =
     dict_get [(''standard'', ''white''), (''minimal'', ''lightgray''), (''bold'', ''white''),
               (''outline'', ''white'')] style ''white''"

text \<open>The stroke colour of \<^verbatim>\<open>'minimal'\<close> is Python's \<^verbatim>\<open>None\<close>.\<close>

definition get_stroke_color :: "string \<Rightarrow> string option" where
  "get_stroke_color style =
     dict_get [(''standard'', Some ''black''), (''minimal'', None), (''bold'', Some ''black''),
               (''outline'', Some ''black'')] style (Some ''black'')"

definition get_stroke_width :: "string \<Rightarrow> int" where
  "get_stroke_width style =
     dict_get [(''standard'', 1), (''minimal'', 0), (''bold'', 2), (''outline'', 3)] style 1"

definition get_font :: "string \<Rightarrow> string" where
  "get_font style =
     dict_get [(''standard'', ''Arial''), (''minimal'', ''Helvetica''), (''bold'', ''Arial-Bold''),
               (''outline'', ''Arial'')] style ''Arial''"

section \<open>Properties of boundary sequences\<close>

text \<open>A sequence is gap-free when each interval starts where the one before it ends.\<close>

fun gap_free :: "boundary list \<Rightarrow> bool" where
  "gap_free [] = True"
| "gap_free [b] = True"
| "gap_free (a # b # bs) = (snd a = fst b \<and> gap_free (b # bs))"

definition duration :: "boundary \<Rightarrow> rat" where
  "duration b = snd b - fst b"

text \<open>
  The invariant of the equal-split loop under a window \<open>0 < min \<le> max\<close>: the list
  starts at 0, ends at \<open>start\<close> and is gap-free; every interval but the last is one full
  step; the last one is a full step as long as the loop goes on, and in any case shorter
  than a full step plus the minimum.
\<close>

definition equal_inv :: "rat \<Rightarrow> int \<Rightarrow> int \<Rightarrow> rat \<times> boundary list \<Rightarrow> bool" where
  "equal_inv T mn mx st =
     (case st of (s, bs) \<Rightarrow>
        s \<le> T \<and>
        (if bs = [] then s = 0
         else fst (hd bs) = 0 \<and> snd (last bs) = s \<and> gap_free bs
            \<and> (\<forall>b\<in>set (butlast bs). duration b = of_int mx)
            \<and> 0 < duration (last bs) \<and> duration (last bs) < of_int mx + of_int mn
            \<and> (s < T \<longrightarrow> duration (last bs) = of_int mx)
            \<and> (1 < length bs \<longrightarrow> of_int mn \<le> duration (last bs))))"


section \<open>Lemmas on the equal-split loop\<close>

lemma gap_free_snoc:
  "gap_free (bs @ [b]) = (gap_free bs \<and> (bs \<noteq> [] \<longrightarrow> snd (last bs) = fst b))"
  by (induction bs rule: gap_free.induct) auto

lemma gap_free_replace_last:
  assumes "gap_free bs" "bs \<noteq> []"
  shows "gap_free (butlast bs @ [(fst (last bs), e)])"
proof -
  have "gap_free (butlast bs @ [last bs])" using assms by simp
  then show ?thesis unfolding gap_free_snoc by simp
qed


lemma equal_step_fst:
  "fst (equal_step T mn mx st) = min (fst st + of_int mx) T"
  by (cases st) (simp add: equal_step_def Let_def split: prod.splits)

lemma equal_loop_rule:
  assumes mx: "0 < mx"
    and step: "\<And>st. I st \<Longrightarrow> fst st < T \<Longrightarrow> I (equal_step T mn mx st)"
    and init: "I st"
  shows "\<exists>st'. equal_loop T mn mx st = Some (snd st') \<and> I st' \<and> \<not> fst st' < T"
  using init
proof (induction "nat \<lceil>(T - fst st) / of_int mx\<rceil>" arbitrary: st rule: less_induct)
  case less
  show ?case
  proof (cases "fst st < T")
    case False
    then have "equal_loop T mn mx st = Some (snd st)"
      by (subst equal_loop.simps) simp
    with False less.prems show ?thesis by blast
  next
    case True
    let ?st = "equal_step T mn mx st"
    let ?x = "(T - fst st) / of_int mx"
    have mxr: "(0::rat) < of_int mx" using mx by simp
    have xpos: "0 < ?x" using True mxr by simp
    then have cpos: "1 \<le> \<lceil>?x\<rceil>" by (simp add: Suc_le_eq)
    have dec: "nat \<lceil>(T - fst ?st) / of_int mx\<rceil> < nat \<lceil>?x\<rceil>"
    proof (cases "fst st + of_int mx \<le> T")
      case True
      then have "fst ?st = fst st + of_int mx" by (simp add: equal_step_fst)
      then have "(T - fst ?st) / of_int mx = ?x - 1"
        using mxr by (simp add: field_simps)
      then have "\<lceil>(T - fst ?st) / of_int mx\<rceil> = \<lceil>?x\<rceil> - 1" by simp
      with cpos show ?thesis by simp
    next
      case False
      then have "fst ?st = T" by (simp add: equal_step_fst)
      with cpos show ?thesis by simp
    qed
    have "I ?st" using step less.prems True by blast
    from less.hyps [OF dec this]
    obtain st' where "equal_loop T mn mx ?st = Some (snd st')" "I st'" "\<not> fst st' < T"
      by blast
    moreover have "equal_loop T mn mx st = equal_loop T mn mx ?st"
      using True by (subst equal_loop.simps) simp
    ultimately have "equal_loop T mn mx st = Some (snd st') \<and> I st' \<and> \<not> fst st' < T"
      by simp
    then show ?thesis by blast
  qed
qed


lemma equal_inv_step:
  assumes w: "0 < mn" "mn \<le> mx"
    and inv: "equal_inv T mn mx st"
    and lt: "fst st < T"
  shows "equal_inv T mn mx (equal_step T mn mx st)"
proof -
  obtain s bs where st: "st = (s, bs)" by (cases st)
  define e where "e = min (s + of_int mx) T"
  have mnr: "(0::rat) < of_int mn" "(of_int mn :: rat) \<le> of_int mx"
    using w by simp_all
  have sT: "s < T" using lt st by simp
  have es: "s < e" "e \<le> T" "e - s \<le> of_int mx" "e < T \<longrightarrow> e - s = of_int mx"
    using sT mnr by (auto simp: e_def min_def)
  show ?thesis
  proof (cases "bs = []")
    case True
    then have "equal_step T mn mx st = (e, [(s, e)])"
      by (simp add: equal_step_def st e_def Let_def)
    moreover have "s = 0" using inv True by (simp add: equal_inv_def st)
    ultimately show ?thesis using es mnr
      by (simp add: equal_inv_def duration_def)
  next
    case False
    from inv False st sT have I:
      "fst (hd bs) = 0" "snd (last bs) = s" "gap_free bs"
      "\<forall>b\<in>set (butlast bs). duration b = of_int mx"
      "duration (last bs) = of_int mx"
      by (simp_all add: equal_inv_def)
    have all: "\<forall>b\<in>set bs. duration b = of_int mx"
    proof -
      have "set bs = set (butlast bs @ [last bs])" using False by simp
      then show ?thesis using I(4,5) by auto
    qed
    show ?thesis
    proof (cases "e - s < of_int mn")
      case True
      then have eT: "e = T" using es mnr by auto
      obtain ps pe where lst: "last bs = (ps, pe)" by (cases "last bs")
      have step: "equal_step T mn mx st = (e, butlast bs @ [(ps, e)])"
        using True False by (simp add: equal_step_def st e_def [symmetric] Let_def lst)
      have ps: "s - ps = of_int mx" using I(2,5) lst by (simp add: duration_def)
      have hd0: "fst (hd (butlast bs @ [(ps, e)])) = 0"
        using False I(1) lst by (cases bs) (auto split: if_splits)
      have gf: "gap_free (butlast bs @ [(ps, e)])"
        using gap_free_replace_last [OF I(3) False, of e] lst by simp
      show ?thesis
        unfolding step equal_inv_def
        using hd0 gf I(4) ps es True mnr eT
        by (simp add: duration_def)
    next
      case nm: False
      then have step: "equal_step T mn mx st = (e, bs @ [(s, e)])"
        by (simp add: equal_step_def st e_def [symmetric] Let_def)
      have gf: "gap_free (bs @ [(s, e)])"
        using I(2,3) by (simp add: gap_free_snoc)
      show ?thesis
        unfolding step equal_inv_def
        using gf all I(1) False es nm mnr
        by (simp add: duration_def)
    qed
  qed
qed

lemma equal_inv_result:
  assumes w: "0 < mn" "mn \<le> mx" and T: "0 < T"
  shows "\<exists>bs. calculate_equal_boundaries T mn mx = Some bs \<and> bs \<noteq> []
           \<and> equal_inv T mn mx (T, bs)"
proof -
  have mx: "0 < mx" using w by simp
  have init: "equal_inv T mn mx (0, [])" using T by (simp add: equal_inv_def)
  from equal_loop_rule [of mx "equal_inv T mn mx" T mn, OF mx equal_inv_step [OF w] init]
  obtain st' where r: "equal_loop T mn mx (0, []) = Some (snd st')"
    "equal_inv T mn mx st'" "\<not> fst st' < T"
    by blast
  obtain s bs where st': "st' = (s, bs)" by (cases st')
  have "s = T" using r(2,3) st' by (simp add: equal_inv_def)
  moreover have "bs \<noteq> []" using r(2,3) st' T by (auto simp: equal_inv_def)
  ultimately show ?thesis using r st' by (simp add: calculate_equal_boundaries_def)
qed


section \<open>Lemmas on the silence strategy\<close>








lemma equal_inv_final:
  assumes w: "0 < mn" "mn \<le> mx" and ne: "bs \<noteq> []" and inv: "equal_inv T mn mx (T, bs)"
  shows "fst (hd bs) = 0" and "snd (last bs) = T" and "gap_free bs"
    and "\<forall>b\<in>set bs. fst b < snd b"
    and "\<forall>b\<in>set (butlast bs). duration b = of_int mx"
    and "0 < duration (last bs)"
    and "duration (last bs) < of_int mx + of_int mn"
    and "1 < length bs \<longrightarrow> of_int mn \<le> duration (last bs)"
proof -
  from inv ne show "fst (hd bs) = 0" and "snd (last bs) = T" and "gap_free bs"
    and full: "\<forall>b\<in>set (butlast bs). duration b = of_int mx"
    and pos: "0 < duration (last bs)"
    and "duration (last bs) < of_int mx + of_int mn"
    and "1 < length bs \<longrightarrow> of_int mn \<le> duration (last bs)"
    by (simp_all add: equal_inv_def)
  have mxr: "(0::rat) < of_int mx" using w by simp
  show "\<forall>b\<in>set bs. fst b < snd b"
  proof
    fix b assume "b \<in> set bs"
    then have "b \<in> set (butlast bs @ [last bs])" using ne by simp
    then have "b \<in> set (butlast bs) \<or> b = last bs" by auto
    then have "0 < duration b" using full pos mxr by auto
    then show "fst b < snd b" by (simp add: duration_def)
  qed
qed

lemma calculate_clip_boundaries_fallback:
  assumes "detect_silence_boundaries chunks mn mx = []"
  shows "calculate_clip_boundaries m [] chunks mn mx T =
           map_option Inr (calculate_equal_boundaries T mn mx)"
  using assms by (simp add: calculate_clip_boundaries_def)

section \<open>Boundary calculator: the claims\<close>





text \<open>
  Claim C3, as the code has it. Neither \<^verbatim>\<open>split_video\<close> nor the boundary calculator
  checks the total duration or the window. With no scene signals and no output of the
  silence strategy, a total duration \<open>\<le> 0\<close> gives the empty boundary list without an
  error, and a window with \<open>0 < max < min\<close> and a total duration \<open>> 0\<close> gives the single
  interval \<open>(0, totalDuration)\<close> without an error.
\<close>

theorem C3_no_validation:
  assumes "detect_silence_boundaries chunks min_duration max_duration = []"
  shows "(total_duration \<le> 0 \<longrightarrow>
            split_video_clip_boundaries True merge [] chunks (min_duration, max_duration)
              total_duration = Some (Inr []))
       \<and> (0 < total_duration \<and> 0 < max_duration \<and> max_duration < min_duration \<longrightarrow>
            split_video_clip_boundaries True merge [] chunks (min_duration, max_duration)
              total_duration = Some (Inr [(0, total_duration)]))"
proof (intro conjI impI)
  assume "total_duration \<le> 0"
  then have "calculate_equal_boundaries total_duration min_duration max_duration = Some []"
    unfolding calculate_equal_boundaries_def by (subst equal_loop.simps) simp
  then show "split_video_clip_boundaries True merge [] chunks (min_duration, max_duration)
               total_duration = Some (Inr [])"
    using calculate_clip_boundaries_fallback [OF assms]
    by (simp add: split_video_clip_boundaries_def)
next
  assume a: "0 < total_duration \<and> 0 < max_duration \<and> max_duration < min_duration"
  let ?T = total_duration
  let ?I = "\<lambda>st. st = (0, []) \<or> (\<exists>s. st = (s, [(0, s)]) \<and> 0 < s \<and> s \<le> ?T)"
  have mxr: "(0::rat) < of_int max_duration" "(of_int max_duration :: rat) < of_int min_duration"
    using a by simp_all
  have step: "?I (equal_step ?T min_duration max_duration st)" if "?I st" "fst st < ?T" for st
    using that
  proof (elim disjE exE conjE)
    assume "st = (0, [])"
    then show ?thesis using a mxr by (simp add: equal_step_def Let_def min_def)
  next
    fix s assume s: "st = (s, [(0, s)])" "0 < s" "s \<le> ?T"
    have "min (s + of_int max_duration) ?T - s < of_int min_duration"
      using mxr by (simp add: min_def)
    then have "equal_step ?T min_duration max_duration st
                 = (min (s + of_int max_duration) ?T, [(0, min (s + of_int max_duration) ?T)])"
      by (simp add: equal_step_def Let_def s(1))
    moreover have "0 < min (s + of_int max_duration) ?T" using s(2) a mxr by (simp add: min_def)
    ultimately show ?thesis by simp
  qed
  have mx: "0 < max_duration" using a by simp
  from equal_loop_rule [of max_duration ?I ?T min_duration "(0, [])", OF mx step]
  obtain st' where r: "equal_loop ?T min_duration max_duration (0, []) = Some (snd st')"
    "?I st'" "\<not> fst st' < ?T"
    by blast
  from r(2,3) a have "st' = (?T, [(0, ?T)])" by auto
  with r(1) have "calculate_equal_boundaries ?T min_duration max_duration = Some [(0, ?T)]"
    by (simp add: calculate_equal_boundaries_def)
  then show "split_video_clip_boundaries True merge [] chunks (min_duration, max_duration)
               ?T = Some (Inr [(0, ?T)])"
    using calculate_clip_boundaries_fallback [OF assms]
    by (simp add: split_video_clip_boundaries_def)
qed

text \<open>
  Witness for C3: a failed silence detection, total duration \<open>- 5\<close> with the window
  (30, 60), and total duration 100 with the window (60, 30).
\<close>

theorem C3_no_validation_witness:
  "detect_silence_boundaries None 30 60 = [] \<and> detect_silence_boundaries None 60 30 = []
   \<and> split_video_clip_boundaries True merge_scenes_undefined [] None (30, 60) (- 5)
       = Some (Inr [])
   \<and> split_video_clip_boundaries True merge_scenes_undefined [] None (60, 30) 100
       = Some (Inr [(0, 100)])"
  using C3_no_validation
          [where chunks = None and min_duration = 30 and max_duration = 60
             and total_duration = "- 5" and merge = merge_scenes_undefined]
        C3_no_validation
          [where chunks = None and min_duration = 60 and max_duration = 30
             and total_duration = 100 and merge = merge_scenes_undefined]
  by (simp add: detect_silence_boundaries_def)

text \<open>
  Counterexample to C3 as stated: with a total duration of 0 the splitter's boundary
  computation returns the empty list, and with the window (60, 30) it returns one
  adjusted interval; neither call fails.
\<close>

theorem C3_silent_counterexample:
  "split_video_clip_boundaries True merge_scenes_undefined [] (Some []) (30, 60) 0
     = Some (Inr [])
   \<and> split_video_clip_boundaries True merge_scenes_undefined [] (Some []) (60, 30) 100
     = Some (Inr [(0, 100)])"
  by (simp add: split_video_clip_boundaries_def calculate_clip_boundaries_def
      detect_silence_boundaries_def calculate_equal_boundaries_def equal_loop.simps
      equal_step_def)

text \<open>
  Claim C4. With a total duration of 125, the window (30, 60) and no signals, the
  equal-split fallback returns \<open>[(0, 60), (60, 125)]\<close>. Its first two passes produce
  (0, 60) and (60, 120); the third pass is the step from 120 to 125, which is 5 seconds
  long, shorter than the minimum, and is merged into the interval before it.
\<close>

theorem C4_equal_split_scenario:
  "calculate_equal_boundaries 125 30 60 = Some [(0, 60), (60, 125)]
   \<and> equal_step 125 30 60 (equal_step 125 30 60 (0, [])) = (120, [(0, 60), (60, 120)])
   \<and> min (120 + of_int 60) (125 :: rat) - 120 = 5
   \<and> equal_step 125 30 60 (120, [(0, 60), (60, 120)]) = (125, [(0, 60), (60, 125)])
   \<and> calculate_clip_boundaries merge_scenes_undefined [] (Some []) 30 60 125
       = Some (Inr [(0, 60), (60, 125)])"
  by (simp add: calculate_clip_boundaries_def detect_silence_boundaries_def
      calculate_equal_boundaries_def equal_loop.simps equal_step_def)




text \<open>
  Claim C6, as the code has it. For every total duration \<open>> 0\<close> and window
  \<open>0 < min \<le> max\<close> the equal-split fallback returns a non-empty sequence in which every
  interval but the last has duration exactly \<open>max\<close>; the last interval has a positive
  duration below \<open>max + min\<close> (it exceeds \<open>max\<close> when a short final step was merged into
  it), and its duration is at least \<open>min\<close> unless it is the only interval.
\<close>

theorem C6_equal_split_durations:
  assumes "0 < total_duration" and "0 < min_duration" and "min_duration \<le> max_duration"
  shows "\<exists>bs. calculate_equal_boundaries total_duration min_duration max_duration = Some bs
            \<and> bs \<noteq> []
            \<and> (\<forall>b\<in>set (butlast bs). duration b = of_int max_duration)
            \<and> 0 < duration (last bs)
            \<and> duration (last bs) < of_int max_duration + of_int min_duration
            \<and> (1 < length bs \<longrightarrow> of_int min_duration \<le> duration (last bs))"
proof -
  from equal_inv_result [OF assms(2,3,1)] obtain bs where
    bs: "calculate_equal_boundaries total_duration min_duration max_duration = Some bs"
      "bs \<noteq> []" "equal_inv total_duration min_duration max_duration (total_duration, bs)"
    by blast
  note fin = equal_inv_final [OF assms(2,3) bs(2,3)]
  show ?thesis using bs(1,2) fin(5-8) by blast
qed

text \<open>Witness for C6: 130 seconds under the window (30, 60).\<close>

theorem C6_equal_split_durations_witness:
  "(0::rat) < 130 \<and> (0::int) < 30 \<and> (30::int) \<le> 60
   \<and> (\<exists>bs. calculate_equal_boundaries 130 30 60 = Some bs \<and> bs \<noteq> []
          \<and> (\<forall>b\<in>set (butlast bs). duration b = of_int 60)
          \<and> 0 < duration (last bs) \<and> duration (last bs) < of_int 60 + of_int 30
          \<and> (1 < length bs \<longrightarrow> of_int 30 \<le> duration (last bs)))"
  using C6_equal_split_durations
          [where total_duration = 130 and min_duration = 30 and max_duration = 60]
  by simp

text \<open>
  Counterexample to C6 as stated: 130 seconds under the window (30, 60). The last
  interval is (60, 130), 70 seconds long, more than the maximum of 60.
\<close>

theorem C6_merged_tail_counterexample:
  "calculate_equal_boundaries 130 30 60 = Some [(0, 60), (60, 130)]
   \<and> \<not> duration (60, 130) \<le> of_int 60"
  by (simp add: calculate_equal_boundaries_def equal_loop.simps equal_step_def duration_def)

section \<open>Caption timing aligner\<close>

lemma filter_subtitles_acc:
  "filter_subtitles st d acc subs =
     acc @ map (\<lambda>e. \<lparr>sub_start = max 0 (sub_start e - st),
                      sub_end = min d (sub_end e - st),
                      sub_text = sub_text e\<rparr>)
               (filter (\<lambda>e. sub_end e > st \<and> sub_start e < st + d) subs)"
  by (induction subs arbitrary: acc) simp_all

text \<open>
  Claim C7. For every subtitle list, clip start and clip duration, the aligned output is
  the input filtered, in input order, by \<open>end > clipStart \<and> start < clipStart + clipDuration\<close>,
  each kept entry mapped to local start \<open>max 0 (start - clipStart)\<close>, local end
  \<open>min clipDuration (end - clipStart)\<close> and the same text. So an entry appears iff it
  passes the test (an entry with \<open>end = clipStart\<close> does not), and the entry
  (58, 63, "hello") aligned to the clip (60, 120) gives (0, 3, "hello").
\<close>

theorem C7_align_to_clip:
  "clip_subtitles_of subs clipStart clipDuration =
     map (\<lambda>e. \<lparr>sub_start = max 0 (sub_start e - clipStart),
                sub_end = min clipDuration (sub_end e - clipStart),
                sub_text = sub_text e\<rparr>)
         (filter (\<lambda>e. sub_end e > clipStart \<and> sub_start e < clipStart + clipDuration) subs)
   \<and> clip_subtitles_of [\<lparr>sub_start = 58, sub_end = 63, sub_text = ''hello''\<rparr>] 60 (120 - 60) =
       [\<lparr>sub_start = 0, sub_end = 3, sub_text = ''hello''\<rparr>]
   \<and> clip_subtitles_of [\<lparr>sub_start = 50, sub_end = 60, sub_text = ''touch''\<rparr>] 60 (120 - 60) = []"
  by (simp add: clip_subtitles_of_def filter_subtitles_acc)

section \<open>Subtitle parser: the claims\<close>

lemma parse_blocks_eq:
  "fst (parse_blocks subs blocks) =
     subs @ concat (map (\<lambda>b. case parse_block b of Inl e \<Rightarrow> [] | Inr new \<Rightarrow> new)
                        (takeWhile (\<lambda>b. \<not> isl (parse_block b)) blocks))"
proof (induction blocks arbitrary: subs)
  case Nil
  show ?case by simp
next
  case (Cons b blocks)
  show ?case
  proof (cases "parse_block b")
    case (Inl e)
    then show ?thesis by simp
  next
    case (Inr new)
    then show ?thesis using Cons.IH [of "subs @ new"] by simp
  qed
qed

lemma pair_case_isl:
  "isl (case xs of [a, b] \<Rightarrow> Inr (f a b) | _ \<Rightarrow> Inl err) = (length xs \<noteq> 2)"
  by (auto split: list.splits)

text \<open>
  Claim C8, as the code has it. A transcript that cannot be read gives the empty
  sequence. Otherwise the result is made of the entries of the blocks that come before
  the first failing block, in order: the first block whose time line does not split into
  exactly two parts at the arrow ends the parse, and every block after it is dropped,
  without an error. A block fails in this way iff it has at least three lines and its
  second line does not split in two; a block of fewer than three lines adds nothing and
  the parse goes on.
\<close>

theorem C8_parse_stops_at_first_failure:
  "parse_srt_file None = []
   \<and> parse_srt_file (Some content) =
       concat (map (\<lambda>b. case parse_block b of Inl e \<Rightarrow> [] | Inr new \<Rightarrow> new)
                   (takeWhile (\<lambda>b. \<not> isl (parse_block b))
                      (split_str (strip content) ''\<newline>\<newline>'')))
   \<and> (isl (parse_block block) \<longleftrightarrow>
        3 \<le> length (split_str (strip block) ''\<newline>'')
        \<and> length (split_str (split_str (strip block) ''\<newline>'' ! 1) '' --> '') \<noteq> 2)
   \<and> (length (split_str (strip block) ''\<newline>'') < 3 \<longrightarrow> parse_block block = Inr [])"
proof (intro conjI)
  show "parse_srt_file None = []" by (simp add: parse_srt_file_def)
  show "parse_srt_file (Some content) =
       concat (map (\<lambda>b. case parse_block b of Inl e \<Rightarrow> [] | Inr new \<Rightarrow> new)
                   (takeWhile (\<lambda>b. \<not> isl (parse_block b))
                      (split_str (strip content) ''\<newline>\<newline>'')))"
    using parse_blocks_eq [of "[]"] by (simp add: parse_srt_file_def)
  show "isl (parse_block block) \<longleftrightarrow>
        3 \<le> length (split_str (strip block) ''\<newline>'')
        \<and> length (split_str (split_str (strip block) ''\<newline>'' ! 1) '' --> '') \<noteq> 2"
    by (simp add: parse_block_def Let_def pair_case_isl)
  show "length (split_str (strip block) ''\<newline>'') < 3 \<longrightarrow> parse_block block = Inr []"
    by (simp add: parse_block_def Let_def)
qed

text \<open>
  Witness for C8: a transcript of three blocks whose second block has no arrow returns
  the entry of the first block only, and a block of two lines adds nothing.
\<close>

theorem C8_parse_witness:
  "parse_srt_file (Some ''1\<newline>00:00:01,000 --> 00:00:02,500\<newline>Hello\<newline>world\<newline>\<newline>2\<newline>bad\<newline>A\<newline>\<newline>3\<newline>00:00:05,000 --> 00:00:06,000\<newline>B\<newline>'')
     = [\<lparr>sub_start = 1, sub_end = 5 / 2, sub_text = ''Hello world''\<rparr>]
   \<and> length (split_str (strip ''1\<newline>only two lines'') ''\<newline>'') < 3
   \<and> parse_block ''1\<newline>only two lines'' = Inr []"
proof -
  have l: "length (split_str (strip ''1\<newline>only two lines'') ''\<newline>'') < 3"
    by (simp add: strip_def is_space_def split_str_def)
  have "parse_srt_file (Some ''1\<newline>00:00:01,000 --> 00:00:02,500\<newline>Hello\<newline>world\<newline>\<newline>2\<newline>bad\<newline>A\<newline>\<newline>3\<newline>00:00:05,000 --> 00:00:06,000\<newline>B\<newline>'')
     = [\<lparr>sub_start = 1, sub_end = 5 / 2, sub_text = ''Hello world''\<rparr>]"
    by (simp add: parse_srt_file_def strip_def is_space_def split_str_def parse_block_def
        time_to_seconds_def py_int_def is_digit_def digit_val_def)
  then show ?thesis
    using l C8_parse_stops_at_first_failure [where block = "''1\<newline>only two lines''"]
    by simp
qed

text \<open>
  Counterexample to C8 as stated: the first block's time line has no arrow and the
  second block is well formed. The second block alone parses to one entry, but after the
  failing block it is not parsed: the result is empty.
\<close>

theorem C8_later_blocks_counterexample:
  "parse_srt_file (Some ''2\<newline>00:00:01,000 --> 00:00:02,000\<newline>B'')
     = [\<lparr>sub_start = 1, sub_end = 2, sub_text = ''B''\<rparr>]
   \<and> parse_srt_file (Some ''1\<newline>bad\<newline>A\<newline>\<newline>2\<newline>00:00:01,000 --> 00:00:02,000\<newline>B'')
     = []"
  by (simp add: parse_srt_file_def strip_def is_space_def split_str_def parse_block_def
      time_to_seconds_def py_int_def is_digit_def digit_val_def)

text \<open>
  Claim C10. A time token that does not split into three fields at the colons, or whose
  third field does not split into two parts at the comma, or one of whose four parts is
  not an integer, is converted to 0 by \<^verbatim>\<open>_time_to_seconds\<close>; the block is not rejected.
  So the parser emits an entry with start = end = 0 for the time line
  \<^verbatim>\<open>xx --> yy\<close>, and an entry with end < start for \<^verbatim>\<open>00:00:05,000 --> 00:00:0x,000\<close>.
\<close>

theorem C10_malformed_time_is_zero:
  "(length (split_str t '':'') \<noteq> 3 \<longrightarrow> time_to_seconds t = 0)
   \<and> (\<forall>h m s. split_str t '':'' = [h, m, s] \<and> length (split_str s '','') \<noteq> 2 \<longrightarrow>
         time_to_seconds t = 0)
   \<and> (\<forall>h m s s' ms. split_str t '':'' = [h, m, s] \<and> split_str s '','' = [s', ms]
         \<and> (py_int h = None \<or> py_int m = None \<or> py_int s' = None \<or> py_int ms = None) \<longrightarrow>
         time_to_seconds t = 0)
   \<and> parse_srt_file (Some ''1\<newline>xx --> yy\<newline>hello'')
       = [\<lparr>sub_start = 0, sub_end = 0, sub_text = ''hello''\<rparr>]
   \<and> parse_srt_file (Some ''1\<newline>00:00:05,000 --> 00:00:0x,000\<newline>hi'')
       = [\<lparr>sub_start = 5, sub_end = 0, sub_text = ''hi''\<rparr>]"
proof (intro conjI allI impI)
  assume "length (split_str t '':'') \<noteq> 3"
  then show "time_to_seconds t = 0"
    by (auto simp: time_to_seconds_def split: list.splits)
next
  fix h m s
  assume "split_str t '':'' = [h, m, s] \<and> length (split_str s '','') \<noteq> 2"
  then show "time_to_seconds t = 0"
    by (auto simp: time_to_seconds_def split: list.splits)
next
  fix h m s s' ms
  assume "split_str t '':'' = [h, m, s] \<and> split_str s '','' = [s', ms]
         \<and> (py_int h = None \<or> py_int m = None \<or> py_int s' = None \<or> py_int ms = None)"
  then show "time_to_seconds t = 0"
    by (auto simp: time_to_seconds_def split: option.splits)
next
  show "parse_srt_file (Some ''1\<newline>xx --> yy\<newline>hello'')
       = [\<lparr>sub_start = 0, sub_end = 0, sub_text = ''hello''\<rparr>]"
    by (simp add: parse_srt_file_def strip_def is_space_def split_str_def parse_block_def
        time_to_seconds_def py_int_def is_digit_def digit_val_def)
  show "parse_srt_file (Some ''1\<newline>00:00:05,000 --> 00:00:0x,000\<newline>hi'')
       = [\<lparr>sub_start = 5, sub_end = 0, sub_text = ''hi''\<rparr>]"
    by (simp add: parse_srt_file_def strip_def is_space_def split_str_def parse_block_def
        time_to_seconds_def py_int_def is_digit_def digit_val_def)
qed

text \<open>
  Witness for C10: the token \<^verbatim>\<open>12:30\<close> has two fields, \<^verbatim>\<open>00:00:01.500\<close> has no comma
  in its third field, and \<^verbatim>\<open>00:00:0x,000\<close> has a part that is not an integer.
\<close>

theorem C10_malformed_time_witness:
  "length (split_str ''12:30'' '':'') \<noteq> 3 \<and> time_to_seconds ''12:30'' = 0
   \<and> split_str ''00:00:01.500'' '':'' = [''00'', ''00'', ''01.500'']
   \<and> length (split_str ''01.500'' '','') \<noteq> 2 \<and> time_to_seconds ''00:00:01.500'' = 0
   \<and> split_str ''00:00:0x,000'' '':'' = [''00'', ''00'', ''0x,000'']
   \<and> split_str ''0x,000'' '','' = [''0x'', ''000''] \<and> py_int ''0x'' = None
   \<and> time_to_seconds ''00:00:0x,000'' = 0"
proof -
  have a: "length (split_str ''12:30'' '':'') \<noteq> 3" by (simp add: split_str_def)
  have b: "split_str ''00:00:01.500'' '':'' = [''00'', ''00'', ''01.500'']"
    "length (split_str ''01.500'' '','') \<noteq> 2"
    by (simp_all add: split_str_def)
  have c: "split_str ''00:00:0x,000'' '':'' = [''00'', ''00'', ''0x,000'']"
    "split_str ''0x,000'' '','' = [''0x'', ''000'']" "py_int ''0x'' = None"
    by (simp_all add: split_str_def py_int_def strip_def is_space_def is_digit_def)
  from C10_malformed_time_is_zero [of "''12:30''"] a
  have 1: "time_to_seconds ''12:30'' = 0" by blast
  from C10_malformed_time_is_zero [of "''00:00:01.500''"] b
  have 2: "time_to_seconds ''00:00:01.500'' = 0" by blast
  from C10_malformed_time_is_zero [of "''00:00:0x,000''"] c
  have 3: "time_to_seconds ''00:00:0x,000'' = 0" by blast
  show ?thesis using a b c 1 2 3 by simp
qed

section \<open>Caption style resolver\<close>

text \<open>
  Claim C9, as the code has it. The style named "minimal" resolves to font size 24, text
  colour "lightgray" (one word), font "Helvetica", no stroke colour and stroke width 0.
\<close>

theorem C9_minimal_style:
  "get_font_size ''minimal'' = 24 \<and> get_text_color ''minimal'' = ''lightgray''
   \<and> get_font ''minimal'' = ''Helvetica'' \<and> get_stroke_color ''minimal'' = None
   \<and> get_stroke_width ''minimal'' = 0"
  by (simp add: get_font_size_def get_text_color_def get_font_def get_stroke_color_def
      get_stroke_width_def dict_get_def)

text \<open>
  Counterexample to C9 as stated: the text colour the code resolves for "minimal" is
  not the two-word string "light gray".
\<close>

theorem C9_text_color_counterexample:
  "get_text_color ''minimal'' \<noteq> ''light gray''"
  by (simp add: get_text_color_def dict_get_def)

end
